theory Spec2Isabelle
  imports Complex_Main "HOL-Library.Word"
begin

section \<open>The audit endpoint: \<^verbatim>\<open>POST /api/audit\<close>\<close>

text \<open>
  A shallow embedding of the route handler \<^verbatim>\<open>POST\<close> of
  \<^verbatim>\<open>apps/api/src/app/api/audit/route.ts\<close> and of the types of
  \<^verbatim>\<open>packages/types/index.ts\<close>.

  The handler talks to four things it does not define: the process environment, the
  request (\<^verbatim>\<open>req.json()\<close>), the completion client
  (\<^verbatim>\<open>openai.chat.completions.create\<close>) and the response constructor
  (\<^verbatim>\<open>NextResponse.json\<close>). The first three are inputs of the model: an
  environment record, the outcome of \<^verbatim>\<open>req.json()\<close>, and a function from the
  parameters of the call to its outcome. The fourth is modelled after the Fetch standard.
  Exceptions are values: everything that can throw returns \<open>js_error + 'a\<close>, with
  \<open>Inl\<close> the thrown value. The calls the handler makes are recorded, in order, in a list
  of events. The construction of the client when the module is loaded (lines 15 to 17) is
  not part of the handler and is not modelled.
\<close>

subsection \<open>JavaScript strings\<close>

text \<open>
  A JavaScript string is a sequence of UTF-16 code units. \<open>js\<close> embeds an ASCII
  literal of the source.
\<close>

type_synonym code_unit = "16 word"
type_synonym jsstring = "code_unit list"

definition js :: "string \<Rightarrow> jsstring" where
  "js s = map of_char s"

text \<open>
  \<^verbatim>\<open>String.prototype.trim\<close> removes white space and line terminators from both
  ends: TAB, LF, VT, FF, CR, SP, NBSP, U+1680, U+2000 to U+200A, LS, PS, U+202F, U+205F,
  U+3000 and the byte order mark.
\<close>

definition is_white_space :: "code_unit \<Rightarrow> bool" where
  "is_white_space c =
     (c = 0x0009 \<or> c = 0x000A \<or> c = 0x000B \<or> c = 0x000C \<or> c = 0x000D \<or> c = 0x0020
      \<or> c = 0x00A0 \<or> c = 0x1680 \<or> (0x2000 \<le> c \<and> c \<le> 0x200A) \<or> c = 0x2028 \<or> c = 0x2029
      \<or> c = 0x202F \<or> c = 0x205F \<or> c = 0x3000 \<or> c = 0xFEFF)"

definition trim :: "jsstring \<Rightarrow> jsstring" where
  "trim s = rev (dropWhile is_white_space (rev (dropWhile is_white_space s)))"

text \<open>\<^verbatim>\<open>s.includes(t)\<close>: \<open>t\<close> occurs in \<open>s\<close> as a contiguous run.\<close>

fun includes_js :: "jsstring \<Rightarrow> jsstring \<Rightarrow> bool" where
  "includes_js [] t = (t = [])"
| "includes_js (c # s) t = (take (length t) (c # s) = t \<or> includes_js s t)"

text \<open>
  A number in a template literal. Status codes are non-negative integers, which print in
  decimal (below \<open>10\<^sup>2\<^sup>1\<close>, far above any status code).
\<close>

definition digit :: "nat \<Rightarrow> code_unit" where
  "digit d = of_nat (48 + d)"

fun decimal :: "nat \<Rightarrow> jsstring" where
  "decimal n = (if n < 10 then [digit n] else decimal (n div 10) @ [digit (n mod 10)])"

declare decimal.simps [simp del]

subsection \<open>Thrown values\<close>

text \<open>
  The \<^verbatim>\<open>catch\<close> block tells thrown values apart with \<^verbatim>\<open>instanceof\<close>: a
  \<^verbatim>\<open>SyntaxError\<close> with its message; an \<^verbatim>\<open>OpenAI.APIError\<close> with its
  status (\<^verbatim>\<open>number | undefined\<close>), name and message; any other \<^verbatim>\<open>Error\<close>
  (\<^verbatim>\<open>TypeError\<close>, \<^verbatim>\<open>RangeError\<close>, a plain \<^verbatim>\<open>Error\<close>) with its
  message; and a thrown value that is no \<^verbatim>\<open>Error\<close> at all.
\<close>

datatype js_error =
    SyntaxError jsstring
  | APIError "nat option" jsstring jsstring
  | OtherError jsstring
  | NonError

fun instanceof_SyntaxError :: "js_error \<Rightarrow> bool" where
  "instanceof_SyntaxError (SyntaxError m) = True"
| "instanceof_SyntaxError (APIError st n m) = False"
| "instanceof_SyntaxError (OtherError m) = False"
| "instanceof_SyntaxError NonError = False"

fun instanceof_APIError :: "js_error \<Rightarrow> bool" where
  "instanceof_APIError (SyntaxError m) = False"
| "instanceof_APIError (APIError st n m) = True"
| "instanceof_APIError (OtherError m) = False"
| "instanceof_APIError NonError = False"

fun instanceof_Error :: "js_error \<Rightarrow> bool" where
  "instanceof_Error (SyntaxError m) = True"
| "instanceof_Error (APIError st n m) = True"
| "instanceof_Error (OtherError m) = True"
| "instanceof_Error NonError = False"

text \<open>
  The fields the handler reads from a caught error. Each read is guarded by an
  \<^verbatim>\<open>instanceof\<close> test, so the values given here for the other cases are never used.
\<close>

fun error_message :: "js_error \<Rightarrow> jsstring" where
  "error_message (SyntaxError m) = m"
| "error_message (APIError st n m) = m"
| "error_message (OtherError m) = m"
| "error_message NonError = []"

fun error_name :: "js_error \<Rightarrow> jsstring" where
  "error_name (SyntaxError m) = js ''SyntaxError''"
| "error_name (APIError st n m) = n"
| "error_name (OtherError m) = js ''Error''"
| "error_name NonError = []"

fun error_status :: "js_error \<Rightarrow> nat option" where
  "error_status (SyntaxError m) = None"
| "error_status (APIError st n m) = st"
| "error_status (OtherError m) = None"
| "error_status NonError = None"

text \<open>\<^verbatim>\<open>${error.status}\<close>: the number in decimal, or the text \<^verbatim>\<open>undefined\<close>.\<close>

fun status_text :: "nat option \<Rightarrow> jsstring" where
  "status_text None = js ''undefined''"
| "status_text (Some s) = decimal s"

text \<open>\<^verbatim>\<open>error.status || 500\<close>: the status unless it is falsy (undefined or 0).\<close>

fun status_or_500 :: "nat option \<Rightarrow> nat" where
  "status_or_500 None = 500"
| "status_or_500 (Some s) = (if s = 0 then 500 else s)"

subsection \<open>JSON values and the request\<close>

text \<open>
  What \<^verbatim>\<open>req.json()\<close> resolves to. A number is a double: a finite one is a
  rational, and a literal too large for a double parses to an infinity. An object keeps
  its members in the order of the text; of two members with one key the later one counts.
\<close>

datatype js_number = Finite rat | PosInfinity | NegInfinity

datatype json =
    JNull
  | JBoolean bool
  | JNumber js_number
  | JString jsstring
  | JArray "json list"
  | JObject "(jsstring \<times> json) list"

text \<open>
  The request, as far as the handler looks at it: the outcome of \<^verbatim>\<open>await req.json()\<close>,
  either the parsed value or the error the runtime throws (a \<^verbatim>\<open>SyntaxError\<close>, worded
  by the JavaScript engine, when the body is not JSON).
\<close>

record request =
  req_json :: "js_error + json"

text \<open>
  \<^verbatim>\<open>const { contractCode } = body\<close>. Destructuring \<^verbatim>\<open>null\<close> throws a
  \<^verbatim>\<open>TypeError\<close>; the text below is V8's. A primitive or an array has no such
  property, and the result is \<^verbatim>\<open>undefined\<close>, here \<open>None\<close>.
\<close>

definition destructure_null_message :: jsstring where
  "destructure_null_message =
     js ''Cannot destructure property 'contractCode' of 'body' as it is null.''"

fun get_contractCode :: "json \<Rightarrow> js_error + json option" where
  "get_contractCode JNull = Inl (OtherError destructure_null_message)"
| "get_contractCode (JBoolean b) = Inr None"
| "get_contractCode (JNumber n) = Inr None"
| "get_contractCode (JString s) = Inr None"
| "get_contractCode (JArray xs) = Inr None"
| "get_contractCode (JObject members) = Inr (map_of (rev members) (js ''contractCode''))"

text \<open>\<^verbatim>\<open>!v\<close> is true for \<^verbatim>\<open>undefined\<close>, \<^verbatim>\<open>null\<close>, \<^verbatim>\<open>false\<close>, zero and the empty string.\<close>

fun falsy :: "json option \<Rightarrow> bool" where
  "falsy None = True"
| "falsy (Some JNull) = True"
| "falsy (Some (JBoolean b)) = (\<not> b)"
| "falsy (Some (JNumber n)) = (n = Finite 0)"
| "falsy (Some (JString s)) = (s = [])"
| "falsy (Some (JArray xs)) = False"
| "falsy (Some (JObject members)) = False"

text \<open>\<^verbatim>\<open>typeof v !== "string"\<close>.\<close>

fun not_a_string :: "json option \<Rightarrow> bool" where
  "not_a_string (Some (JString s)) = False"
| "not_a_string v = True"

text \<open>
  The test of lines 37 to 41. The third disjunct is only evaluated for a string, the
  second one being true otherwise.
\<close>

definition invalid_contractCode :: "json option \<Rightarrow> bool" where
  "invalid_contractCode v =
     (falsy v \<or> not_a_string v \<or> (case v of Some (JString s) \<Rightarrow> trim s = [] | _ \<Rightarrow> False))"

text \<open>After the test the value is a string; every other case has been rejected.\<close>

definition validate :: "json option \<Rightarrow> jsstring option" where
  "validate v =
     (if invalid_contractCode v then None
      else (case v of Some (JString s) \<Rightarrow> Some s | _ \<Rightarrow> None))"

subsection \<open>The response\<close>

text \<open>The interfaces of \<^verbatim>\<open>packages/types/index.ts\<close>; an optional field is an option.\<close>

record audit_report =
  aiAudit :: "jsstring option"

record audit_response =
  success :: bool
  results :: "audit_report option"
  error :: "jsstring option"

record response =
  status :: nat
  body :: audit_response

text \<open>
  \<^verbatim>\<open>NextResponse.json(body, { status })\<close> builds a \<^verbatim>\<open>Response\<close>. The Fetch
  standard (initialize a response) has the constructor throw a \<^verbatim>\<open>RangeError\<close> for
  a status outside 200 to 599, and a \<^verbatim>\<open>TypeError\<close> for a body together with a
  null body status (204, 205, 304; 101 and 103 are out of range already). The messages
  are undici's.
\<close>

definition range_error_message :: jsstring where
  "range_error_message = js ''init[\"status\"] must be in the range of 200 to 599, inclusive.''"

definition null_body_message :: "nat \<Rightarrow> jsstring" where
  "null_body_message s = js ''Response constructor: Invalid response status code '' @ decimal s"

definition NextResponse_json :: "audit_response \<Rightarrow> nat \<Rightarrow> js_error + response" where
  "NextResponse_json b s =
     (if s < 200 \<or> 599 < s then Inl (OtherError range_error_message)
      else if s = 204 \<or> s = 205 \<or> s = 304 then Inl (OtherError (null_body_message s))
      else Inr \<lparr>status = s, body = b\<rparr>)"

subsection \<open>The completion client\<close>

text \<open>
  The parameters of \<^verbatim>\<open>openai.chat.completions.create\<close> (a message is its role and
  its content), and the part of its result the handler reads:
  \<^verbatim>\<open>completion.choices[0]?.message?.content\<close>. The client either resolves to a
  completion or throws.
\<close>

record chat_params =
  model :: jsstring
  messages :: "(jsstring \<times> jsstring) list"
  temperature :: rat
  max_tokens :: nat

record chat_message =
  content :: "jsstring option"

record choice =
  message :: "chat_message option"

record chat_completion =
  choices :: "choice list"

type_synonym completion_api = "chat_params \<Rightarrow> js_error + chat_completion"

definition first_content :: "chat_completion \<Rightarrow> jsstring option" where
  "first_content completion =
     (case choices completion of
        [] \<Rightarrow> None
      | c # cs \<Rightarrow> (case message c of None \<Rightarrow> None | Some m \<Rightarrow> content m))"

subsection \<open>The prompt\<close>

text \<open>
  The template literal of lines 50 to 84, line by line. It opens with a line break after
  the backquote, has the contract code as its only substitution, on line 80 after eight
  spaces, and ends with the eight spaces before the closing backquote.
\<close>

definition newline :: jsstring where
  "newline = [0x000A]"

definition join_lines :: "string list \<Rightarrow> jsstring" where
  "join_lines ls = concat (map (\<lambda>l. js l @ newline) ls)"

definition prompt_head :: jsstring where
  "prompt_head = join_lines
     [[],
      ''        Act as an expert Solidity smart contract security auditor.'',
      ''        Analyze the following Solidity code for vulnerabilities, security risks, and deviations from best practices. Your analysis should be thorough.'',
      [],
      ''        Identify specific issues including, but not limited to:'',
      ''        - Reentrancy (Checks, Effects, Interactions pattern)'',
      ''        - Integer Overflow/Underflow (using SafeMath or Solidity >=0.8.0)'',
      ''        - Access Control Issues (modifier usage, ownership, authorization logic)'',
      ''        - Gas Limit Issues / Denial of Service (DoS) vectors (unbounded loops, gas griefing)'',
      ''        - Timestamp Dependence / Block Variable Reliance (block.timestamp, block.number)'',
      ''        - Unchecked External Calls / Return Values (call, delegatecall, staticcall)'',
      ''        - Front-Running Vulnerabilities (e.g., in token approvals, order books)'',
      ''        - Oracle Manipulation risks'',
      ''        - Improper Handling or Locking of Ether/Tokens'',
      ''        - Use of deprecated Solidity features or unsafe practices (e.g., tx.origin)'',
      ''        - Logic errors leading to unintended state changes or behavior'',
      ''        - Precision issues with fixed-point numbers or division'',
      ''        - Delegatecall vulnerabilities'',
      [],
      ''        For each issue found:'',
      ''        1.  **Vulnerability/Risk:** Clearly describe the issue.'',
      ''        2.  **Location:** Reference the specific function name(s) and approximate line number(s) if possible.'',
      ''        3.  **Impact:** Explain the potential negative consequences.'',
      ''        4.  **Recommendation:** Suggest a concrete mitigation strategy or code fix.'',
      ''        5.  **Severity:** Assign a severity level (e.g., Critical, High, Medium, Low, Informational).'',
      [],
      ''        Structure your response clearly. If no significant issues are found, state that clearly, but still mention any minor best practice recommendations or areas for gas optimization if applicable.'',
      [],
      ''        Solidity Code to Audit:'']"

definition fence_open :: jsstring where
  "fence_open = js ''        ```solidity'' @ newline @ js ''        ''"

definition fence_close :: jsstring where
  "fence_close = newline @ js ''        ```'' @ newline"

definition prompt_tail :: jsstring where
  "prompt_tail = newline @ js ''        Audit Report:'' @ newline @ js ''        ''"

definition prompt :: "jsstring \<Rightarrow> jsstring" where
  "prompt contractCode = prompt_head @ fence_open @ contractCode @ fence_close @ prompt_tail"

text \<open>The argument of \<^verbatim>\<open>openai.chat.completions.create\<close>, lines 88 to 94.\<close>

definition create_params :: "jsstring \<Rightarrow> chat_params" where
  "create_params p =
     \<lparr>model = js ''gpt-4'', messages = [(js ''user'', p)], temperature = 2 / 10,
      max_tokens = 3000\<rparr>"

subsection \<open>The handler\<close>

record environment =
  OPENAI_API_KEY :: "jsstring option"

text \<open>\<^verbatim>\<open>!process.env.OPENAI_API_KEY\<close>: the variable is unset or empty.\<close>

fun missing_key :: "jsstring option \<Rightarrow> bool" where
  "missing_key None = True"
| "missing_key (Some k) = (k = [])"

datatype event =
    Console_log jsstring
  | Console_error jsstring
  | Console_error_with jsstring js_error
  | Req_json
  | Completions_create chat_params

record outcome =
  returned :: "js_error + response"
  events :: "event list"

definition failure :: "jsstring \<Rightarrow> audit_response" where
  "failure m = \<lparr>success = False, results = None, error = Some m\<rparr>"

text \<open>
  Lines 97 to 116: what the handler does with a completion. \<open>Inl\<close> is a value thrown
  inside \<^verbatim>\<open>try\<close>. \<^verbatim>\<open>!aiReportContent\<close> holds for undefined, null and the
  empty string.
\<close>

definition empty_response :: "(js_error + response) \<times> event list" where
  "empty_response =
     (Inl (OtherError (js ''Received empty response from AI analysis.'')),
      [Console_error (js ''OpenAI response content is empty.'')])"

definition format_report :: "chat_completion \<Rightarrow> (js_error + response) \<times> event list" where
  "format_report completion =
     (case first_content completion of
        None \<Rightarrow> empty_response
      | Some aiReportContent \<Rightarrow>
          if aiReportContent = [] then empty_response
          else (NextResponse_json
                  \<lparr>success = True, results = Some \<lparr>aiAudit = Some (trim aiReportContent)\<rparr>,
                   error = None\<rparr>
                  200,
                []))"

text \<open>Lines 32 to 116, the body of \<^verbatim>\<open>try\<close>.\<close>

definition try_block :: "request \<Rightarrow> completion_api \<Rightarrow> (js_error + response) \<times> event list" where
  "try_block req create =
     (case req_json req of
        Inl e \<Rightarrow> (Inl e, [Req_json])
      | Inr json_body \<Rightarrow>
          (case get_contractCode json_body of
             Inl e \<Rightarrow> (Inl e, [Req_json])
           | Inr v \<Rightarrow>
               (case validate v of
                  None \<Rightarrow>
                    (NextResponse_json
                       (failure (js ''Bad Request: Missing or invalid contractCode in request body.''))
                       400,
                     [Req_json])
                | Some contractCode \<Rightarrow>
                    (let params = create_params (prompt contractCode);
                         sent = [Req_json, Console_log (js ''Sending request to OpenAI...''),
                                 Completions_create params]
                     in case create params of
                          Inl e \<Rightarrow> (Inl e, sent)
                        | Inr completion \<Rightarrow>
                            (let (r, evs) = format_report completion
                             in (r, sent @ [Console_log (js ''Received response from OpenAI.'')]
                                      @ evs))))))"

text \<open>Lines 117 to 144, the \<^verbatim>\<open>catch\<close> block.\<close>

definition catch_block :: "js_error \<Rightarrow> js_error + response" where
  "catch_block e =
     (let (errorMessage, statusCode) =
        (if instanceof_SyntaxError e \<and> includes_js (error_message e) (js ''JSON'')
         then (js ''Bad Request: Invalid JSON format in request body.'', 400)
         else if instanceof_APIError e
         then (js ''OpenAI API Error: '' @ status_text (error_status e) @ js '' ''
                 @ error_name e @ js '' '' @ error_message e,
               status_or_500 (error_status e))
         else if instanceof_Error e
         then (js ''Internal Server Error: '' @ error_message e, 500)
         else (js ''An unexpected error occurred.'', 500))
      in NextResponse_json (failure errorMessage) statusCode)"

text \<open>The handler, lines 20 to 145.\<close>

definition POST :: "environment \<Rightarrow> request \<Rightarrow> completion_api \<Rightarrow> outcome" where
  "POST env req create =
     (if missing_key (OPENAI_API_KEY env)
      then \<lparr>returned =
              NextResponse_json (failure (js ''Server configuration error: Missing API key.'')) 500,
            events = [Console_error (js ''OpenAI API key not configured'')]\<rparr>
      else (case try_block req create of
              (Inr r, evs) \<Rightarrow> \<lparr>returned = Inr r, events = evs\<rparr>
            | (Inl e, evs) \<Rightarrow>
                \<lparr>returned = catch_block e,
                 events = evs @ [Console_error_with (js ''Error in /api/audit:'') e]\<rparr>))"

subsection \<open>Sample inputs\<close>

text \<open>
  Inputs for the examples below: an environment with the credential, requests whose body
  parsed to a given value, and mocked clients that resolve to a completion or throw.
\<close>

definition configured :: environment where
  "configured = \<lparr>OPENAI_API_KEY = Some (js ''sk-test'')\<rparr>"

definition request_with :: "json \<Rightarrow> request" where
  "request_with v = \<lparr>req_json = Inr v\<rparr>"

definition audit_request :: "jsstring \<Rightarrow> request" where
  "audit_request c = request_with (JObject [(js ''contractCode'', JString c)])"

definition reply_with :: "jsstring option \<Rightarrow> chat_completion" where
  "reply_with t = \<lparr>choices = [\<lparr>message = Some \<lparr>content = t\<rparr>\<rparr>]\<rparr>"

definition api_returning :: "chat_completion \<Rightarrow> completion_api" where
  "api_returning completion params = Inr completion"

definition api_throwing :: "js_error \<Rightarrow> completion_api" where
  "api_throwing e params = Inl e"

text \<open>
  The shape of the \<^verbatim>\<open>AuditResponse\<close> objects: results and no error on success, an
  error and no results on failure.
\<close>

definition well_formed :: "audit_response \<Rightarrow> bool" where
  "well_formed b =
     ((success b \<and> results b \<noteq> None \<and> error b = None)
      \<or> (\<not> success b \<and> results b = None \<and> error b \<noteq> None))"

section \<open>Properties\<close>

subsection \<open>Strings and validation\<close>

lemma trim_Nil: "trim [] = []"
  by (simp add: trim_def)

lemma trim_all_white_space:
  assumes "\<forall>c\<in>set t. is_white_space c"
  shows "trim t = []"
proof -
  have blank: "dropWhile is_white_space t = []"
    using assms by (simp add: dropWhile_eq_Nil_conv)
  show ?thesis
    unfolding trim_def blank by simp
qed

lemma includes_js_Nil: "includes_js s []"
  by (cases s) simp_all

lemma includes_js_self: "includes_js (t @ b) t"
  by (cases t) (simp_all add: includes_js_Nil)

lemma includes_js_append: "includes_js (a @ t @ b) t"
  by (induction a) (simp_all add: includes_js_self)

lemma validate_Some_iff:
  "validate v = Some c \<longleftrightarrow> v = Some (JString c) \<and> trim c \<noteq> []"
  by (auto simp: validate_def invalid_contractCode_def trim_Nil split: option.splits json.splits)

lemma validate_string: "validate (Some (JString c)) = (if trim c = [] then None else Some c)"
  by (auto simp: validate_def invalid_contractCode_def trim_Nil)

subsection \<open>The catch block\<close>

lemma catch_block_SyntaxError:
  "includes_js m (js ''JSON'') \<Longrightarrow>
   catch_block (SyntaxError m) =
     Inr \<lparr>status = 400, body = failure (js ''Bad Request: Invalid JSON format in request body.'')\<rparr>"
  by (simp add: catch_block_def NextResponse_json_def)

lemma catch_block_OtherError:
  "catch_block (OtherError m) =
     Inr \<lparr>status = 500, body = failure (js ''Internal Server Error: '' @ m)\<rparr>"
  by (simp add: catch_block_def NextResponse_json_def)

lemma catch_block_APIError:
  "catch_block (APIError st n m) =
     NextResponse_json
       (failure (js ''OpenAI API Error: '' @ status_text st @ js '' '' @ n @ js '' '' @ m))
       (status_or_500 st)"
  by (simp add: catch_block_def)

lemma well_formed_failure: "well_formed (failure m)"
  by (simp add: well_formed_def failure_def)

lemma catch_block_well_formed: "catch_block e = Inr r \<Longrightarrow> well_formed (body r)"
  by (auto simp: catch_block_def NextResponse_json_def well_formed_failure Let_def
      split: if_splits)

lemma catch_block_throws:
  assumes "catch_block e = Inl e'"
  shows "\<exists>st n m. e = APIError st n m
     \<and> (status_or_500 st < 200 \<or> 599 < status_or_500 st
        \<or> status_or_500 st = 204 \<or> status_or_500 st = 205 \<or> status_or_500 st = 304)"
  using assms by (cases e) (auto simp: catch_block_def NextResponse_json_def split: if_splits)

subsection \<open>The try block\<close>

lemma format_report_text:
  "first_content completion = Some t \<Longrightarrow> t \<noteq> [] \<Longrightarrow>
   fst (format_report completion) =
     Inr \<lparr>status = 200,
          body = \<lparr>success = True, results = Some \<lparr>aiAudit = Some (trim t)\<rparr>, error = None\<rparr>\<rparr>"
  by (simp add: format_report_def NextResponse_json_def)

lemma format_report_empty:
  "first_content completion = None \<or> first_content completion = Some [] \<Longrightarrow>
   fst (format_report completion) =
     Inl (OtherError (js ''Received empty response from AI analysis.''))"
  by (auto simp: format_report_def empty_response_def)

lemma format_report_returns:
  "format_report completion = (Inr r, evs) \<Longrightarrow> well_formed (body r)"
  by (auto simp: format_report_def empty_response_def NextResponse_json_def well_formed_def
      split: option.splits if_splits)


lemma try_block_valid:
  assumes "req_json req = Inr b" and "get_contractCode b = Inr (Some (JString c))"
    and "trim c \<noteq> []"
  shows "fst (try_block req create) =
     (case create (create_params (prompt c)) of
        Inl e \<Rightarrow> Inl e
      | Inr completion \<Rightarrow> fst (format_report completion))"
  using assms by (simp add: try_block_def validate_string Let_def split: sum.splits prod.splits)


lemma try_block_well_formed:
  "fst (try_block req create) = Inr r \<Longrightarrow> well_formed (body r)"
  by (auto simp: try_block_def NextResponse_json_def well_formed_failure Let_def
      dest: format_report_returns
      split: sum.splits option.splits prod.splits)

subsection \<open>The handler\<close>

lemma returned_POST:
  "\<not> missing_key (OPENAI_API_KEY env) \<Longrightarrow>
   returned (POST env req create) =
     (case fst (try_block req create) of Inr r \<Rightarrow> Inr r | Inl e \<Rightarrow> catch_block e)"
  by (simp add: POST_def split: prod.splits sum.splits)


lemma returned_POST_valid:
  assumes "OPENAI_API_KEY env = Some k" and "k \<noteq> []"
    and "req_json req = Inr (JObject members)"
    and "map_of (rev members) (js ''contractCode'') = Some (JString c)"
    and "trim c \<noteq> []"
  shows "returned (POST env req create) =
     (case create (create_params (prompt c)) of
        Inl e \<Rightarrow> catch_block e
      | Inr completion \<Rightarrow>
          (case fst (format_report completion) of Inr r \<Rightarrow> Inr r | Inl e \<Rightarrow> catch_block e))"
proof -
  have "get_contractCode (JObject members) = Inr (Some (JString c))"
    using assms(4) by simp
  then have "fst (try_block req create) =
      (case create (create_params (prompt c)) of
         Inl e \<Rightarrow> Inl e
       | Inr completion \<Rightarrow> fst (format_report completion))"
    using assms(3,5) by (rule_tac try_block_valid) auto
  then show ?thesis
    using assms(1,2) by (simp add: returned_POST split: sum.splits)
qed

text \<open>
  What the outcome depends on: whether the credential is there, the outcome of
  \<^verbatim>\<open>req.json()\<close>, and what the client does with the requests the handler can
  send.
\<close>

lemma try_block_cong:
  assumes "req_json req1 = req_json req2"
    and "\<forall>c. create1 (create_params (prompt c)) = create2 (create_params (prompt c))"
  shows "try_block req1 create1 = try_block req2 create2"
  using assms by (simp add: try_block_def Let_def split: sum.splits option.splits)

lemma POST_cong:
  assumes "missing_key (OPENAI_API_KEY env1) = missing_key (OPENAI_API_KEY env2)"
    and "req_json req1 = req_json req2"
    and "\<forall>c. create1 (create_params (prompt c)) = create2 (create_params (prompt c))"
  shows "POST env1 req1 create1 = POST env2 req2 create2"
  using assms(1) try_block_cong [OF assms(2,3)] by (simp add: POST_def)

text \<open>
  A response the handler returns has the shape of \<open>well_formed\<close>, whatever the request,
  the environment and the client do.
\<close>

lemma POST_well_formed:
  assumes "returned (POST env req create) = Inr r"
  shows "well_formed (body r)"
proof (cases "missing_key (OPENAI_API_KEY env)")
  case True
  then show ?thesis
    using assms by (auto simp: POST_def NextResponse_json_def well_formed_failure)
next
  case False
  then show ?thesis
    using assms try_block_well_formed [of req create] catch_block_well_formed
    by (auto simp: returned_POST split: sum.splits)
qed

text \<open>
  The handler itself throws on one path only: an \<^verbatim>\<open>APIError\<close> was caught, and the
  status taken from it is none that \<^verbatim>\<open>NextResponse.json\<close> accepts.
\<close>

lemma POST_throws:
  assumes "returned (POST env req create) = Inl e'"
  shows "\<exists>st n m. fst (try_block req create) = Inl (APIError st n m)
     \<and> (status_or_500 st < 200 \<or> 599 < status_or_500 st
        \<or> status_or_500 st = 204 \<or> status_or_500 st = 205 \<or> status_or_500 st = 304)"
proof (cases "missing_key (OPENAI_API_KEY env)")
  case True
  then show ?thesis
    using assms by (simp add: POST_def NextResponse_json_def)
next
  case False
  then obtain e where "fst (try_block req create) = Inl e" and "catch_block e = Inl e'"
    using assms by (auto simp: returned_POST split: sum.splits)
  then show ?thesis
    using catch_block_throws by blast
qed

text \<open>
  A parsed body other than \<^verbatim>\<open>null\<close> whose \<^verbatim>\<open>contractCode\<close> is missing, not a
  string, or blank is answered with status 400.
\<close>

lemma POST_invalid_contractCode:
  assumes key: "OPENAI_API_KEY env = Some k" "k \<noteq> []"
    and body: "req_json req = Inr b" "b \<noteq> JNull"
    and invalid: "\<forall>c. get_contractCode b = Inr (Some (JString c)) \<longrightarrow> trim c = []"
  shows "returned (POST env req create) =
     Inr \<lparr>status = 400,
          body = \<lparr>success = False, results = None,
                  error = Some (js ''Bad Request: Missing or invalid contractCode in request body.'')\<rparr>\<rparr>"
proof -
  obtain v where v: "get_contractCode b = Inr v"
    using body(2) by (cases b) simp_all
  have "validate v = None"
  proof (cases "validate v")
    case (Some c)
    then show ?thesis
      using invalid v by (simp add: validate_Some_iff)
  qed simp
  then have "fst (try_block req create) =
      NextResponse_json
        (failure (js ''Bad Request: Missing or invalid contractCode in request body.'')) 400"
    using body(1) v by (simp add: try_block_def)
  then show ?thesis
    using key by (simp add: returned_POST NextResponse_json_def failure_def)
qed

text \<open>
  The bodies \<^verbatim>\<open>{}\<close>, \<^verbatim>\<open>{"contractCode": ""}\<close> and
  \<^verbatim>\<open>{"contractCode": "   "}\<close>.
\<close>

lemma POST_invalid_contractCode_examples:
  "returned (POST configured (request_with (JObject [])) create) =
     Inr \<lparr>status = 400,
          body = failure (js ''Bad Request: Missing or invalid contractCode in request body.'')\<rparr>"
  "returned (POST configured (audit_request []) create) =
     Inr \<lparr>status = 400,
          body = failure (js ''Bad Request: Missing or invalid contractCode in request body.'')\<rparr>"
  "returned (POST configured (audit_request (js ''   '')) create) =
     Inr \<lparr>status = 400,
          body = failure (js ''Bad Request: Missing or invalid contractCode in request body.'')\<rparr>"
proof -
  have key: "OPENAI_API_KEY configured = Some (js ''sk-test'')" "js ''sk-test'' \<noteq> []"
    by (simp_all add: configured_def js_def)
  have blank: "trim (js ''   '') = []"
    by (simp add: trim_def js_def is_white_space_def)
  show "returned (POST configured (request_with (JObject [])) create) =
     Inr \<lparr>status = 400,
          body = failure (js ''Bad Request: Missing or invalid contractCode in request body.'')\<rparr>"
    using POST_invalid_contractCode [OF key, of "request_with (JObject [])" "JObject []" create]
    by (simp add: request_with_def failure_def)
  show "returned (POST configured (audit_request []) create) =
     Inr \<lparr>status = 400,
          body = failure (js ''Bad Request: Missing or invalid contractCode in request body.'')\<rparr>"
    using POST_invalid_contractCode [OF key, of "audit_request []"
        "JObject [(js ''contractCode'', JString [])]" create]
    by (simp add: audit_request_def request_with_def failure_def trim_Nil)
  show "returned (POST configured (audit_request (js ''   '')) create) =
     Inr \<lparr>status = 400,
          body = failure (js ''Bad Request: Missing or invalid contractCode in request body.'')\<rparr>"
    using POST_invalid_contractCode [OF key, of "audit_request (js ''   '')"
        "JObject [(js ''contractCode'', JString (js ''   ''))]" create] blank
    by (simp add: audit_request_def request_with_def failure_def)
qed

text \<open>
  A \<^verbatim>\<open>SyntaxError\<close> whose message does not contain \<^verbatim>\<open>JSON\<close> takes the generic
  branch, and an unset and an empty credential are treated alike.
\<close>

lemma POST_other_SyntaxError:
  assumes "OPENAI_API_KEY env = Some k" and "k \<noteq> []"
    and "req_json req = Inl (SyntaxError m)" and "\<not> includes_js m (js ''JSON'')"
  shows "returned (POST env req create) =
     Inr \<lparr>status = 500, body = failure (js ''Internal Server Error: '' @ m)\<rparr>"
proof -
  have "fst (try_block req create) = Inl (SyntaxError m)"
    using assms(3) by (simp add: try_block_def)
  then have "returned (POST env req create) = catch_block (SyntaxError m)"
    using assms(1,2) by (simp add: returned_POST)
  then show ?thesis
    using assms(4) by (simp add: catch_block_def NextResponse_json_def)
qed

lemma POST_empty_key:
  assumes "OPENAI_API_KEY env = Some []"
  shows "POST env req create =
     \<lparr>returned = Inr \<lparr>status = 500,
                       body = failure (js ''Server configuration error: Missing API key.'')\<rparr>,
      events = [Console_error (js ''OpenAI API key not configured'')]\<rparr>"
  using assms by (simp add: POST_def NextResponse_json_def)

text \<open>
  An \<^verbatim>\<open>APIError\<close> whose status is absent, or one that a response with a body can
  carry (200 to 599 other than 204, 205 and 304): the handler returns that status, 500
  when it is absent, and the message \<^verbatim>\<open>OpenAI API Error: <status> <name> <message>\<close>,
  the status printed in decimal or as \<^verbatim>\<open>undefined\<close>.
\<close>

lemma POST_api_error_usable:
  assumes key: "OPENAI_API_KEY env = Some k" "k \<noteq> []"
    and body: "req_json req = Inr (JObject members)"
    and field: "map_of (rev members) (js ''contractCode'') = Some (JString contractCode)"
    and nonblank: "trim contractCode \<noteq> []"
    and api: "create (create_params (prompt contractCode)) = Inl (APIError st name msg)"
    and usable: "st = None
        \<or> (\<exists>s. st = Some s \<and> 200 \<le> s \<and> s \<le> 599 \<and> s \<noteq> 204 \<and> s \<noteq> 205 \<and> s \<noteq> 304)"
  shows "returned (POST env req create) =
     Inr \<lparr>status = (case st of None \<Rightarrow> 500 | Some s \<Rightarrow> s),
          body = \<lparr>success = False, results = None,
                  error = Some (js ''OpenAI API Error: ''
                    @ (case st of None \<Rightarrow> js ''undefined'' | Some s \<Rightarrow> decimal s)
                    @ js '' '' @ name @ js '' '' @ msg)\<rparr>\<rparr>
     \<and> (st = Some 429 \<longrightarrow>
          includes_js (js ''OpenAI API Error: '' @ decimal 429 @ js '' '' @ name @ js '' '' @ msg)
            (js ''429''))"
proof -
  have "returned (POST env req create) = catch_block (APIError st name msg)"
    using returned_POST_valid [OF key body field nonblank, of create] api by simp
  moreover have "NextResponse_json b (status_or_500 st) =
      Inr \<lparr>status = (case st of None \<Rightarrow> 500 | Some s \<Rightarrow> s), body = b\<rparr>"
    for b
    using usable by (auto simp: NextResponse_json_def)
  moreover have "status_text st = (case st of None \<Rightarrow> js ''undefined'' | Some s \<Rightarrow> decimal s)"
    by (cases st) simp_all
  moreover have "decimal 429 = js ''429''"
    by (simp add: decimal.simps digit_def js_def)
  ultimately show ?thesis
    by (simp add: catch_block_APIError failure_def includes_js_append)
qed

text \<open>A rate limit error, status 429: the status is passed on and the message names it.\<close>

lemma POST_api_error_429:
  "returned (POST configured (audit_request (js ''contract C {}''))
      (api_throwing (APIError (Some 429) (js ''Error'') (js ''Rate limit reached'')))) =
   Inr \<lparr>status = 429,
        body = \<lparr>success = False, results = None,
                error = Some (js ''OpenAI API Error: 429 Error Rate limit reached'')\<rparr>\<rparr>
   \<and> includes_js (js ''OpenAI API Error: 429 Error Rate limit reached'') (js ''429'')"
proof -
  have nonblank: "trim (js ''contract C {}'') \<noteq> []"
    by (simp add: trim_def js_def is_white_space_def)
  have text429: "decimal 429 = js ''429''"
    by (simp add: decimal.simps digit_def js_def)
  show ?thesis
    using POST_api_error_usable [of configured "js ''sk-test''"
        "audit_request (js ''contract C {}'')"
        "[(js ''contractCode'', JString (js ''contract C {}''))]" "js ''contract C {}''"
        "api_throwing (APIError (Some 429) (js ''Error'') (js ''Rate limit reached''))"
        "Some 429" "js ''Error''" "js ''Rate limit reached''"]
      nonblank text429
    by (simp add: configured_def audit_request_def request_with_def api_throwing_def js_def)
qed

subsection \<open>The claims\<close>

text \<open>
  C1. For every request whose body is valid JSON with a string field
  \<^verbatim>\<open>contractCode\<close> that is not empty after trimming, if the completion API returns a
  first choice whose message content is a non-empty text, the handler returns status 200
  with the body \<^verbatim>\<open>{success: true, results: {aiAudit: t}}\<close>, where \<open>t\<close> is that
  text trimmed. The completion API is only reached with the credential configured, which
  is the first hypothesis.
\<close>

theorem POST_success:
  assumes key: "OPENAI_API_KEY env = Some k" "k \<noteq> []"
    and body: "req_json req = Inr (JObject members)"
    and field: "map_of (rev members) (js ''contractCode'') = Some (JString contractCode)"
    and nonblank: "trim contractCode \<noteq> []"
    and api: "create (create_params (prompt contractCode)) = Inr completion"
    and reply: "first_content completion = Some t" "t \<noteq> []"
  shows "returned (POST env req create) =
     Inr \<lparr>status = 200,
          body = \<lparr>success = True, results = Some \<lparr>aiAudit = Some (trim t)\<rparr>, error = None\<rparr>\<rparr>"
  using returned_POST_valid [OF key body field nonblank, of create] api
    format_report_text [OF reply]
  by simp

text \<open>The request \<^verbatim>\<open>{"contractCode": "contract C {}"}\<close>, answered with a padded report.\<close>

theorem POST_success_witness:
  "returned (POST configured (audit_request (js ''contract C {}''))
      (api_returning (reply_with (Some (js '' No issues found. ''))))) =
   Inr \<lparr>status = 200,
        body = \<lparr>success = True, results = Some \<lparr>aiAudit = Some (js ''No issues found.'')\<rparr>,
                error = None\<rparr>\<rparr>"
proof -
  have nonblank: "trim (js ''contract C {}'') \<noteq> []"
    by (simp add: trim_def js_def is_white_space_def)
  have trimmed: "trim (js '' No issues found. '') = js ''No issues found.''"
    by (simp add: trim_def js_def is_white_space_def)
  show ?thesis
    using POST_success [of configured "js ''sk-test''"
        "audit_request (js ''contract C {}'')"
        "[(js ''contractCode'', JString (js ''contract C {}''))]" "js ''contract C {}''"
        "api_returning (reply_with (Some (js '' No issues found. '')))"
        "reply_with (Some (js '' No issues found. ''))" "js '' No issues found. ''"]
      nonblank trimmed
    by (simp add: configured_def audit_request_def request_with_def api_returning_def
        reply_with_def first_content_def js_def)
qed

text \<open>
  C2. For every request and every outcome the handler returns a JSON body with a boolean
  \<^verbatim>\<open>success\<close>, with results and no error on success and an error and no results on
  failure, and never a raw exception. Every response the handler returns has this shape
  (\<open>POST_well_formed\<close>), but the handler does not always return: when the client
  throws an \<^verbatim>\<open>APIError\<close> with status 999, line 143 passes 999 to
  \<^verbatim>\<open>NextResponse.json\<close>, whose \<^verbatim>\<open>RangeError\<close> leaves the handler.
\<close>

theorem POST_unusable_upstream_status:
  "returned (POST configured (audit_request (js ''contract C {}''))
      (api_throwing (APIError (Some 999) (js ''Error'') (js ''upstream'')))) =
   Inl (OtherError range_error_message)"
proof -
  have nonblank: "trim (js ''contract C {}'') \<noteq> []"
    by (simp add: trim_def js_def is_white_space_def)
  have "returned (POST configured (audit_request (js ''contract C {}''))
      (api_throwing (APIError (Some 999) (js ''Error'') (js ''upstream'')))) =
      catch_block (APIError (Some 999) (js ''Error'') (js ''upstream''))"
    using returned_POST_valid [of configured "js ''sk-test''"
        "audit_request (js ''contract C {}'')"
        "[(js ''contractCode'', JString (js ''contract C {}''))]" "js ''contract C {}''"]
      nonblank
    by (simp add: configured_def audit_request_def request_with_def api_throwing_def js_def)
  then show ?thesis
    by (simp add: catch_block_APIError NextResponse_json_def)
qed

text \<open>
  C3. If the credential \<^verbatim>\<open>OPENAI_API_KEY\<close> is absent, the handler returns status
  500 with a failure envelope whatever the request body is, before parsing the body and
  without invoking the completion API: the only event is the log line.
\<close>

theorem POST_missing_key:
  assumes "OPENAI_API_KEY env = None"
  shows "POST env req create =
     \<lparr>returned = Inr \<lparr>status = 500,
                       body = \<lparr>success = False, results = None,
                               error = Some (js ''Server configuration error: Missing API key.'')\<rparr>\<rparr>,
      events = [Console_error (js ''OpenAI API key not configured'')]\<rparr>"
  using assms by (simp add: POST_def NextResponse_json_def failure_def)

text \<open>A request and a client that would succeed, without the credential.\<close>

theorem POST_missing_key_witness:
  "POST \<lparr>OPENAI_API_KEY = None\<rparr> (audit_request (js ''contract C {}''))
      (api_returning (reply_with (Some (js ''report'')))) =
     \<lparr>returned = Inr \<lparr>status = 500,
                       body = \<lparr>success = False, results = None,
                               error = Some (js ''Server configuration error: Missing API key.'')\<rparr>\<rparr>,
      events = [Console_error (js ''OpenAI API key not configured'')]\<rparr>"
  using POST_missing_key [of "\<lparr>OPENAI_API_KEY = None\<rparr>"] by simp

text \<open>
  C4. For every request whose body parses as JSON but whose \<^verbatim>\<open>contractCode\<close> is
  missing, not a string, or blank, the handler returns status 400 with an error message
  about missing or invalid input. This holds for every parsed body but one
  (\<open>POST_invalid_contractCode\<close>): the body \<^verbatim>\<open>null\<close> parses as JSON and has no
  \<^verbatim>\<open>contractCode\<close>, the destructuring of line 36 throws on it, and the generic
  branch of the catch block answers with status 500.
\<close>

theorem POST_null_body:
  "returned (POST configured (request_with JNull)
      (api_returning (reply_with (Some (js ''report''))))) =
   Inr \<lparr>status = 500,
        body = \<lparr>success = False, results = None,
                error = Some (js ''Internal Server Error: '' @ destructure_null_message)\<rparr>\<rparr>"
proof -
  have "fst (try_block (request_with JNull) (api_returning (reply_with (Some (js ''report'')))))
      = Inl (OtherError destructure_null_message)"
    by (simp add: try_block_def request_with_def)
  then show ?thesis
    by (simp add: returned_POST configured_def js_def catch_block_OtherError failure_def)
qed

text \<open>
  C5. For every request whose body is not valid JSON, the handler returns status 400 with
  \<^verbatim>\<open>success: false\<close> and an error message about the JSON format. The handler sees
  such a body as the \<^verbatim>\<open>SyntaxError\<close> that \<^verbatim>\<open>req.json()\<close> throws, and
  recognises it by the word \<^verbatim>\<open>JSON\<close> in its message, which is how the JavaScript
  engines word the errors of \<^verbatim>\<open>JSON.parse\<close>.
\<close>

theorem POST_invalid_JSON:
  assumes key: "OPENAI_API_KEY env = Some k" "k \<noteq> []"
    and parse: "req_json req = Inl (SyntaxError m)"
    and worded: "includes_js m (js ''JSON'')"
  shows "returned (POST env req create) =
     Inr \<lparr>status = 400,
          body = \<lparr>success = False, results = None,
                  error = Some (js ''Bad Request: Invalid JSON format in request body.'')\<rparr>\<rparr>"
proof -
  have "fst (try_block req create) = Inl (SyntaxError m)"
    using parse by (simp add: try_block_def)
  then have "returned (POST env req create) = catch_block (SyntaxError m)"
    using key by (simp add: returned_POST)
  then show ?thesis
    using worded by (simp add: catch_block_SyntaxError failure_def)
qed

text \<open>An empty body, with V8's message.\<close>

theorem POST_invalid_JSON_witness:
  "returned (POST configured \<lparr>req_json = Inl (SyntaxError (js ''Unexpected end of JSON input''))\<rparr>
      (api_returning (reply_with (Some (js ''report''))))) =
   Inr \<lparr>status = 400,
        body = \<lparr>success = False, results = None,
                error = Some (js ''Bad Request: Invalid JSON format in request body.'')\<rparr>\<rparr>"
proof -
  have worded: "includes_js (js ''Unexpected end of JSON input'') (js ''JSON'')"
    by (simp add: js_def)
  show ?thesis
    using POST_invalid_JSON [of configured "js ''sk-test''"
        "\<lparr>req_json = Inl (SyntaxError (js ''Unexpected end of JSON input''))\<rparr>"
        "js ''Unexpected end of JSON input''"] worded
    by (simp add: configured_def js_def)
qed

text \<open>
  C6. Whenever the completion API call throws a structured API error with a status code,
  a name and a message, the handler returns that same status code, 500 when the status
  is absent, with \<^verbatim>\<open>success: false\<close> and the error message
  \<^verbatim>\<open>OpenAI API Error: <status> <name> <message>\<close>; a status of 429 yields a 429
  response whose message contains \<^verbatim>\<open>429\<close>. This holds when the status is absent
  or one that a response with a body can carry (\<open>POST_api_error_usable\<close>,
  \<open>POST_api_error_429\<close>). With any other status the handler does not return: an
  \<^verbatim>\<open>APIError\<close> with status 304 has line 143 pass 304 to
  \<^verbatim>\<open>NextResponse.json\<close>, which refuses a body with it, and the
  \<^verbatim>\<open>TypeError\<close> leaves the handler.
\<close>

theorem POST_api_error_304:
  "returned (POST configured (audit_request (js ''contract C {}''))
      (api_throwing (APIError (Some 304) (js ''Error'') (js ''Not Modified'')))) =
   Inl (OtherError (null_body_message 304))"
proof -
  have nonblank: "trim (js ''contract C {}'') \<noteq> []"
    by (simp add: trim_def js_def is_white_space_def)
  have "returned (POST configured (audit_request (js ''contract C {}''))
      (api_throwing (APIError (Some 304) (js ''Error'') (js ''Not Modified'')))) =
      catch_block (APIError (Some 304) (js ''Error'') (js ''Not Modified''))"
    using returned_POST_valid [of configured "js ''sk-test''"
        "audit_request (js ''contract C {}'')"
        "[(js ''contractCode'', JString (js ''contract C {}''))]" "js ''contract C {}''"]
      nonblank
    by (simp add: configured_def audit_request_def request_with_def api_throwing_def js_def)
  then show ?thesis
    by (simp add: catch_block_APIError NextResponse_json_def)
qed

text \<open>
  C7. Whenever the completion API call succeeds but the content of the first completion's
  message is empty or missing, the handler treats this as a failure and returns status
  500 with \<^verbatim>\<open>success: false\<close> and a fixed error message.
\<close>

theorem POST_empty_reply:
  assumes key: "OPENAI_API_KEY env = Some k" "k \<noteq> []"
    and body: "req_json req = Inr (JObject members)"
    and field: "map_of (rev members) (js ''contractCode'') = Some (JString contractCode)"
    and nonblank: "trim contractCode \<noteq> []"
    and api: "create (create_params (prompt contractCode)) = Inr completion"
    and reply: "first_content completion = None \<or> first_content completion = Some []"
  shows "returned (POST env req create) =
     Inr \<lparr>status = 500,
          body = \<lparr>success = False, results = None,
                  error = Some (js ''Internal Server Error: Received empty response from AI analysis.'')\<rparr>\<rparr>"
proof -
  have "fst (format_report completion) =
      Inl (OtherError (js ''Received empty response from AI analysis.''))"
    using reply by (rule format_report_empty)
  then have "returned (POST env req create) =
      catch_block (OtherError (js ''Received empty response from AI analysis.''))"
    using returned_POST_valid [OF key body field nonblank, of create] api by simp
  moreover have "js ''Internal Server Error: '' @ js ''Received empty response from AI analysis.''
      = js ''Internal Server Error: Received empty response from AI analysis.''"
    by (simp add: js_def)
  ultimately show ?thesis
    by (simp add: catch_block_OtherError failure_def)
qed

text \<open>A completion without choices.\<close>

theorem POST_empty_reply_witness:
  "returned (POST configured (audit_request (js ''contract C {}''))
      (api_returning \<lparr>choices = []\<rparr>)) =
   Inr \<lparr>status = 500,
        body = \<lparr>success = False, results = None,
                error = Some (js ''Internal Server Error: Received empty response from AI analysis.'')\<rparr>\<rparr>"
proof -
  have nonblank: "trim (js ''contract C {}'') \<noteq> []"
    by (simp add: trim_def js_def is_white_space_def)
  show ?thesis
    using POST_empty_reply [of configured "js ''sk-test''"
        "audit_request (js ''contract C {}'')"
        "[(js ''contractCode'', JString (js ''contract C {}''))]" "js ''contract C {}''"
        "api_returning \<lparr>choices = []\<rparr>" "\<lparr>choices = []\<rparr>"]
      nonblank
    by (simp add: configured_def audit_request_def request_with_def api_returning_def
        first_content_def js_def)
qed



text \<open>
  C10. For every valid request, if the content of the first choice's message is a
  non-empty string of white space only, the handler does not take it for an empty result:
  it returns status 200 with \<^verbatim>\<open>success: true\<close> and the empty string as
  \<^verbatim>\<open>results.aiAudit\<close>, the test for emptiness coming before the trimming.
\<close>

theorem POST_white_space_reply:
  assumes key: "OPENAI_API_KEY env = Some k" "k \<noteq> []"
    and body: "req_json req = Inr (JObject members)"
    and field: "map_of (rev members) (js ''contractCode'') = Some (JString contractCode)"
    and nonblank: "trim contractCode \<noteq> []"
    and api: "create (create_params (prompt contractCode)) = Inr completion"
    and reply: "first_content completion = Some t" "t \<noteq> []" "\<forall>c\<in>set t. is_white_space c"
  shows "returned (POST env req create) =
     Inr \<lparr>status = 200,
          body = \<lparr>success = True, results = Some \<lparr>aiAudit = Some []\<rparr>, error = None\<rparr>\<rparr>"
  using returned_POST_valid [OF key body field nonblank, of create] api
    format_report_text [OF reply(1,2)] trim_all_white_space [OF reply(3)]
  by simp

text \<open>A reply of three spaces.\<close>

theorem POST_white_space_reply_witness:
  "returned (POST configured (audit_request (js ''contract C {}''))
      (api_returning (reply_with (Some (js ''   ''))))) =
   Inr \<lparr>status = 200,
        body = \<lparr>success = True, results = Some \<lparr>aiAudit = Some []\<rparr>, error = None\<rparr>\<rparr>"
proof -
  have nonblank: "trim (js ''contract C {}'') \<noteq> []"
    by (simp add: trim_def js_def is_white_space_def)
  have blank: "\<forall>c\<in>set (js ''   ''). is_white_space c"
    by (simp add: js_def is_white_space_def)
  have nonempty: "js ''   '' \<noteq> []"
    by (simp add: js_def)
  show ?thesis
    using POST_white_space_reply [of configured "js ''sk-test''"
        "audit_request (js ''contract C {}'')"
        "[(js ''contractCode'', JString (js ''contract C {}''))]" "js ''contract C {}''"
        "api_returning (reply_with (Some (js ''   '')))" "reply_with (Some (js ''   ''))"
        "js ''   ''"]
      nonblank blank nonempty
    by (simp add: configured_def audit_request_def request_with_def api_returning_def
        reply_with_def first_content_def js_def)
qed

end
